theory Spec2Isabelle
  imports Complex_Main "HOL-Library.Sublist"
begin

section \<open>Library Inventory Manager: the Book record\<close>

text \<open>
  The dataclass \<open>Book\<close> of \<open>assignment3.py\<close>: six fields, each declared \<open>str\<close>.
  \<open>status\<close> is a free string in the source (no enumeration), with default
  \<open>"available"\<close>; \<open>issued_to\<close> and \<open>issued_on\<close> default to the empty string.
\<close>

record book =
  title :: string
  author :: string
  isbn :: string
  status :: string
  issued_to :: string
  issued_on :: string

text \<open>\<open>Book(title=t, author=a, isbn=i)\<close>: the constructor call of the menu, with the defaults.\<close>

definition Book :: "string \<Rightarrow> string \<Rightarrow> string \<Rightarrow> book" where
  "Book t a i =
     \<lparr>title = t, author = a, isbn = i, status = ''available'', issued_to = [], issued_on = []\<rparr>"

text \<open>
  The exceptions the program raises or catches. \<open>PlainException\<close> is Python's
  \<open>Exception(msg)\<close>; \<open>TypeError\<close> is what a failed \<open>Book(**item)\<close> or an iteration
  over a non-iterable raises; \<open>OSError\<close> is a failed \<open>open\<close>.
\<close>

datatype py_exception =
    ValueError string
  | FileNotFoundError string
  | PlainException string
  | TypeError
  | JSONDecodeError
  | OSError string

subsection \<open>The clock\<close>

text \<open>
  \<open>datetime.datetime.now()\<close> is read from the environment, so the current time is an
  argument of the model. A Python \<open>datetime\<close> has year 1..9999, month 1..12, day 1..31,
  hour 0..23, minute and second 0..59; \<open>isoformat(timespec="seconds")\<close> of a naive
  datetime prints \<open>YYYY-MM-DDTHH:MM:SS\<close> with zero padding.
\<close>

record datetime =
  dt_year :: nat
  dt_month :: nat
  dt_day :: nat
  dt_hour :: nat
  dt_minute :: nat
  dt_second :: nat

definition digit :: "nat \<Rightarrow> char" where
  "digit n = char_of (48 + n mod 10)"

definition pad2 :: "nat \<Rightarrow> string" where
  "pad2 n = [digit (n div 10), digit n]"

definition pad4 :: "nat \<Rightarrow> string" where
  "pad4 n = [digit (n div 1000), digit (n div 100), digit (n div 10), digit n]"

definition isoformat :: "datetime \<Rightarrow> string" where
  "isoformat d =
     pad4 (dt_year d) @ ''-'' @ pad2 (dt_month d) @ ''-'' @ pad2 (dt_day d) @ ''T'' @
     pad2 (dt_hour d) @ '':'' @ pad2 (dt_minute d) @ '':'' @ pad2 (dt_second d)"

subsection \<open>Book methods\<close>

definition is_available :: "book \<Rightarrow> bool" where
  "is_available b = (status b = ''available'')"

text \<open>
  \<open>Book.issue\<close> and \<open>Book.return_book\<close> mutate the object or raise. The model returns
  the exception or the updated record; a raise leaves the object as it was.
\<close>

definition issue :: "book \<Rightarrow> string \<Rightarrow> datetime \<Rightarrow> py_exception + book" where
  "issue b user_name now =
     (if \<not> is_available b
      then Inl (PlainException (''Book already issued to '' @ issued_to b @ ''.''))
      else Inr (b\<lparr>status := ''issued'', issued_to := user_name, issued_on := isoformat now\<rparr>))"

definition book_return_book :: "book \<Rightarrow> py_exception + book" where
  "book_return_book b =
     (if is_available b
      then Inl (PlainException ''Book is already available.'')
      else Inr (b\<lparr>status := ''available'', issued_to := [], issued_on := []\<rparr>))"

text \<open>The object after a call, whether the call returned or raised.\<close>

definition after :: "book \<Rightarrow> py_exception + book \<Rightarrow> book" where
  "after b r = (case r of Inl e \<Rightarrow> b | Inr b' \<Rightarrow> b')"

section \<open>The catalog store\<close>

subsection \<open>JSON values and the backing file\<close>

text \<open>
  \<open>json.dump\<close> and \<open>json.load\<close> are library code. The model keeps the file at the
  level of the value \<open>json.load\<close> would return: a file either holds text that
  \<open>json.load\<close> rejects with \<open>JSONDecodeError\<close>, or it holds a JSON document, given by
  its value. That \<open>json.load\<close> reads back the value \<open>json.dump\<close> wrote is the library's
  contract and is built into this representation. An object is an association list in
  the order of its keys; in a value from \<open>json.load\<close> the keys are distinct.
\<close>

datatype json =
    JNull
  | JBool bool
  | JNumber rat
  | JString string
  | JArray "json list"
  | JObject "(string \<times> json) list"

datatype content = Unparseable | Parsed json

datatype log_level = INFO | ERROR

type_synonym log_entry = "log_level \<times> string"

text \<open>
  The state an operation of \<open>LibraryInventory\<close> reads and writes: the list
  \<open>self.books\<close>, the file at \<open>self.storage_path\<close> (\<open>None\<close> when it does not exist), the
  records the logger has emitted, and, as the environment's part, whether opening the
  file for writing fails (\<open>Some msg\<close>: \<open>open("w")\<close> raises \<open>OSError(msg)\<close> and the file
  stays as it was).
\<close>

record inventory =
  books :: "book list"
  storage :: "content option"
  write_fault :: "string option"
  logged :: "log_entry list"

definition logger :: "log_level \<Rightarrow> string \<Rightarrow> inventory \<Rightarrow> inventory" where
  "logger lvl msg s = s\<lparr>logged := logged s @ [(lvl, msg)]\<rparr>"

subsection \<open>Saving\<close>

text \<open>\<open>Book.to_dict\<close> is \<open>dataclasses.asdict\<close>: every field, in declaration order.\<close>

definition to_dict :: "book \<Rightarrow> json" where
  "to_dict b = JObject
     [(''title'', JString (title b)), (''author'', JString (author b)),
      (''isbn'', JString (isbn b)), (''status'', JString (status b)),
      (''issued_to'', JString (issued_to b)), (''issued_on'', JString (issued_on b))]"

text \<open>
  \<open>save_to_file\<close> returns nothing and raises nothing: the \<open>except Exception\<close> clause
  logs \<open>Failed to save: <e>\<close> and falls through.
\<close>

definition save_to_file :: "inventory \<Rightarrow> inventory" where
  "save_to_file s =
     (case write_fault s of
        None \<Rightarrow> s\<lparr>storage := Some (Parsed (JArray (map to_dict (books s))))\<rparr>
      | Some e \<Rightarrow> logger ERROR (''Failed to save: '' @ e) s)"

subsection \<open>Loading\<close>

definition field_names :: "string list" where
  "field_names = [''title'', ''author'', ''isbn'', ''status'', ''issued_to'', ''issued_on'']"

definition required_names :: "string list" where
  "required_names = [''title'', ''author'', ''isbn'']"

fun str_value :: "json \<Rightarrow> string option" where
  "str_value (JString v) = Some v"
| "str_value _ = None"

text \<open>
  The keyword argument \<open>k\<close> of \<open>Book(**item)\<close>, or the field's default when \<open>item\<close> has
  no such key. The result is \<open>None\<close> when the value is not a string.
\<close>

definition kwarg :: "(string \<times> json) list \<Rightarrow> string \<Rightarrow> string \<Rightarrow> string option" where
  "kwarg kw k dflt = (case map_of kw k of None \<Rightarrow> Some dflt | Some v \<Rightarrow> str_value v)"

text \<open>
  \<open>Book(**item)\<close>. It raises \<open>TypeError\<close> when \<open>item\<close> is not a mapping, when a key is not
  a field name (unexpected keyword argument), and when \<open>title\<close>, \<open>author\<close> or \<open>isbn\<close> is
  missing. Otherwise the dataclass stores the values unchecked. The fields of the model
  are strings, as the dataclass declares them: for a value that is not a string the
  result is \<open>Inr None\<close>, a book the model has no record for.
\<close>

fun Book_kw :: "json \<Rightarrow> py_exception + book option" where
  "Book_kw (JObject kw) =
     (if list_ex (\<lambda>k. k \<notin> set field_names) (map fst kw) then Inl TypeError
      else if list_ex (\<lambda>k. k \<notin> set (map fst kw)) required_names then Inl TypeError
      else Inr
        (case (kwarg kw ''title'' [], kwarg kw ''author'' [], kwarg kw ''isbn'' [],
               kwarg kw ''status'' ''available'', kwarg kw ''issued_to'' [],
               kwarg kw ''issued_on'' []) of
           (Some t, Some a, Some i, Some st, Some ito, Some ion) \<Rightarrow>
             Some \<lparr>title = t, author = a, isbn = i, status = st, issued_to = ito, issued_on = ion\<rparr>
         | _ \<Rightarrow> None))"
| "Book_kw _ = Inl TypeError"

text \<open>
  \<open>for item in data\<close>: a list yields its elements, a dict its keys, a string its
  characters; \<open>None\<close>, a boolean and a number are not iterable.
\<close>

fun iterate :: "json \<Rightarrow> py_exception + json list" where
  "iterate (JArray xs) = Inr xs"
| "iterate (JObject kw) = Inr (map (\<lambda>(k, v). JString k) kw)"
| "iterate (JString cs) = Inr (map (\<lambda>c. JString [c]) cs)"
| "iterate _ = Inl TypeError"

text \<open>
  The comprehension \<open>[Book(**item) for item in data]\<close> over the items, left to right:
  the first raise ends it. \<open>Inr None\<close>: every item was accepted and one of them carries
  a value that is not a string.
\<close>

fun comprehension :: "json list \<Rightarrow> py_exception + book list option" where
  "comprehension [] = Inr (Some [])"
| "comprehension (item # items) =
     (case Book_kw item of
        Inl e \<Rightarrow> Inl e
      | Inr ob \<Rightarrow>
          (case comprehension items of
             Inl e \<Rightarrow> Inl e
           | Inr obs \<Rightarrow>
               Inr (case ob of
                      None \<Rightarrow> None
                    | Some b \<Rightarrow> (case obs of None \<Rightarrow> None | Some bs \<Rightarrow> Some (b # bs)))))"

text \<open>
  \<open>load_from_file\<close> catches every exception, so it always returns. The model's result
  is \<open>None\<close> exactly when the program would hold a book with a field that is not a
  string; everywhere else it is the state the program is left in.
\<close>

definition load_from_file :: "inventory \<Rightarrow> inventory option" where
  "load_from_file s =
     (case storage s of
        None \<Rightarrow> Some (s\<lparr>books := []\<rparr>)
      | Some Unparseable \<Rightarrow>
          Some ((logger ERROR ''JSON corrupt. Starting empty catalog.'' s)\<lparr>books := []\<rparr>)
      | Some (Parsed data) \<Rightarrow>
          (case iterate data of
             Inl e \<Rightarrow> Some ((logger ERROR ''Unexpected error loading file.'' s)\<lparr>books := []\<rparr>)
           | Inr items \<Rightarrow>
               (case comprehension items of
                  Inl e \<Rightarrow>
                    Some ((logger ERROR ''Unexpected error loading file.'' s)\<lparr>books := []\<rparr>)
                | Inr None \<Rightarrow> None
                | Inr (Some bs) \<Rightarrow> Some (s\<lparr>books := bs\<rparr>))))"

subsection \<open>Adding and searching\<close>

text \<open>
  An operation that can raise returns the exception (or \<open>Inr ()\<close> for a normal return)
  together with the state it leaves behind.
\<close>

definition add_book :: "inventory \<Rightarrow> book \<Rightarrow> (py_exception + unit) \<times> inventory" where
  "add_book s b =
     (if list_ex (\<lambda>x. isbn x = isbn b) (books s)
      then (Inl (ValueError ''ISBN already exists in catalog.''), s)
      else (Inr (),
            logger INFO (''Book added: '' @ title b)
              (save_to_file (s\<lparr>books := books s @ [b]\<rparr>))))"





text \<open>
  \<open>search_by_isbn\<close> returns a reference to the first book of the list with that ISBN,
  or \<open>None\<close>. \<open>search_by_isbn\<close> gives the book the reference points to, \<open>isbn_ref\<close> the
  reference itself, as the book's position in \<open>self.books\<close>, which the callers mutate
  through.
\<close>

fun search_in :: "book list \<Rightarrow> string \<Rightarrow> book option" where
  "search_in [] i = None"
| "search_in (b # bs) i = (if isbn b = i then Some b else search_in bs i)"

definition search_by_isbn :: "inventory \<Rightarrow> string \<Rightarrow> book option" where
  "search_by_isbn s i = search_in (books s) i"

fun isbn_ref :: "book list \<Rightarrow> string \<Rightarrow> nat option" where
  "isbn_ref [] i = None"
| "isbn_ref (b # bs) i = (if isbn b = i then Some 0 else map_option Suc (isbn_ref bs i))"

definition display_all :: "inventory \<Rightarrow> book list" where
  "display_all s = books s"

subsection \<open>Issuing and returning\<close>

definition issue_book ::
  "inventory \<Rightarrow> string \<Rightarrow> string \<Rightarrow> datetime \<Rightarrow> (py_exception + unit) \<times> inventory" where
  "issue_book s i user_name now =
     (case isbn_ref (books s) i of
        None \<Rightarrow> (Inl (FileNotFoundError ''Book with that ISBN not found.''), s)
      | Some k \<Rightarrow>
          (case issue (books s ! k) user_name now of
             Inl e \<Rightarrow> (Inl e, s)
           | Inr b' \<Rightarrow> (Inr (), save_to_file (s\<lparr>books := (books s)[k := b']\<rparr>))))"

definition return_book :: "inventory \<Rightarrow> string \<Rightarrow> (py_exception + unit) \<times> inventory" where
  "return_book s i =
     (case isbn_ref (books s) i of
        None \<Rightarrow> (Inl (FileNotFoundError ''Book not found.''), s)
      | Some k \<Rightarrow>
          (case book_return_book (books s ! k) of
             Inl e \<Rightarrow> (Inl e, s)
           | Inr b' \<Rightarrow> (Inr (), save_to_file (s\<lparr>books := (books s)[k := b']\<rparr>))))"

subsection \<open>Construction\<close>

text \<open>
  \<open>LibraryInventory.__init__\<close>: an empty list, \<open>_ensure_storage\<close> (which saves the empty
  list when the file does not exist), then \<open>load_from_file\<close>. The arguments are the
  environment the object is created in.
\<close>

definition ensure_storage :: "inventory \<Rightarrow> inventory" where
  "ensure_storage s = (if storage s = None then save_to_file s else s)"

definition LibraryInventory ::
  "content option \<Rightarrow> string option \<Rightarrow> log_entry list \<Rightarrow> inventory option" where
  "LibraryInventory file fault lg =
     load_from_file
       (ensure_storage \<lparr>books = [], storage = file, write_fault = fault, logged = lg\<rparr>)"

section \<open>Notions the properties are stated with\<close>

text \<open>
  The record invariant of the data model: \<open>issued_to\<close> is non-empty exactly when the
  status is \<open>issued\<close>, and so is \<open>issued_on\<close>.
\<close>

definition book_inv :: "book \<Rightarrow> bool" where
  "book_inv b =
     ((issued_to b \<noteq> [] \<longleftrightarrow> status b = ''issued'') \<and>
      (issued_on b \<noteq> [] \<longleftrightarrow> status b = ''issued''))"

text \<open>
  A malformed record, by its shape alone: an item that is not an object, an object with
  a key that is no field of \<open>Book\<close>, or an object without \<open>title\<close>, \<open>author\<close> or \<open>isbn\<close>.
\<close>

definition malformed :: "json \<Rightarrow> bool" where
  "malformed item =
     (case item of
        JObject kw \<Rightarrow>
          \<not> set (map fst kw) \<subseteq> set field_names \<or> \<not> set required_names \<subseteq> set (map fst kw)
      | _ \<Rightarrow> True)"

text \<open>
  File content that is no catalog: text that does not parse, an array with a malformed
  record, a scalar at the top level, or a non-empty object or string at the top level
  (its keys or characters are then taken for records). An empty object and an empty
  string at the top level hold no record at all and are not counted here.
\<close>

fun corrupt :: "content \<Rightarrow> bool" where
  "corrupt Unparseable = True"
| "corrupt (Parsed (JArray items)) = list_ex malformed items"
| "corrupt (Parsed (JObject kw)) = (kw \<noteq> [])"
| "corrupt (Parsed (JString cs)) = (cs \<noteq> [])"
| "corrupt (Parsed _) = True"




subsection \<open>Example data\<close>

text \<open>The books of the specification's scenario, a second book under Dune's ISBN, and a clock reading.\<close>

definition dune :: book where
  "dune = Book ''Dune'' ''Herbert'' ''111''"

definition foundation :: book where
  "foundation = Book ''Foundation'' ''Asimov'' ''222''"

definition messiah :: book where
  "messiah = Book ''Dune Messiah'' ''Herbert'' ''111''"

definition noon :: datetime where
  "noon = \<lparr>dt_year = 2024, dt_month = 3, dt_day = 5, dt_hour = 12, dt_minute = 0, dt_second = 0\<rparr>"

definition dune_issued :: book where
  "dune_issued = dune\<lparr>status := ''issued'', issued_to := ''Alice'',
     issued_on := ''2024-03-05T12:00:00''\<rparr>"

definition vacant :: inventory where
  "vacant = \<lparr>books = [], storage = Some (Parsed (JArray [])), write_fault = None, logged = []\<rparr>"

definition shelf :: inventory where
  "shelf = \<lparr>books = [dune, foundation],
            storage = Some (Parsed (JArray [to_dict dune, to_dict foundation])),
            write_fault = None, logged = []\<rparr>"

definition lent :: inventory where
  "lent = \<lparr>books = [dune_issued, foundation],
           storage = Some (Parsed (JArray [to_dict dune_issued, to_dict foundation])),
           write_fault = None, logged = []\<rparr>"


definition twins :: inventory where
  "twins = \<lparr>books = [dune, messiah],
            storage = Some (Parsed (JArray [to_dict dune, to_dict messiah])),
            write_fault = None, logged = []\<rparr>"



section \<open>Auxiliary facts\<close>

subsection \<open>The timestamp\<close>

lemma isoformat_length: "length (isoformat d) = 19"
  by (simp add: isoformat_def pad2_def pad4_def)


lemma isoformat_noon: "isoformat noon = ''2024-03-05T12:00:00''"
  by code_simp

subsection \<open>Lookup by ISBN\<close>

lemma isbn_ref_None: "isbn_ref bs i = None \<longleftrightarrow> i \<notin> isbn ` set bs"
  by (induction bs) auto

lemma isbn_ref_Some:
  "isbn_ref bs i = Some k \<Longrightarrow> k < length bs \<and> isbn (bs ! k) = i \<and> (\<forall>j<k. isbn (bs ! j) \<noteq> i)"
proof (induction bs arbitrary: k)
  case Nil
  then show ?case by simp
next
  case (Cons b bs)
  show ?case
  proof (cases "isbn b = i")
    case True
    with Cons.prems show ?thesis by simp
  next
    case False
    with Cons.prems obtain k' where k': "isbn_ref bs i = Some k'" "k = Suc k'"
      by auto
    from Cons.IH [OF k'(1)] False k'(2) show ?thesis
      by (auto simp: nth_Cons split: nat.splits)
  qed
qed

lemma search_in_ref: "search_in bs i = map_option (\<lambda>k. bs ! k) (isbn_ref bs i)"
  by (induction bs) (auto simp: option.map_comp comp_def)

lemma list_ex_isbn: "list_ex (\<lambda>x. isbn x = i) bs \<longleftrightarrow> i \<in> isbn ` set bs"
  by (auto simp: list_ex_iff)

subsection \<open>The list of books after each operation\<close>

lemma books_save_to_file: "books (save_to_file s) = books s"
  by (simp add: save_to_file_def logger_def split: option.splits)


lemma books_issue_book:
  "books (snd (issue_book s i u now)) =
     (case isbn_ref (books s) i of
        None \<Rightarrow> books s
      | Some k \<Rightarrow> (books s)[k := after (books s ! k) (issue (books s ! k) u now)])"
  by (auto simp: issue_book_def books_save_to_file after_def split: option.splits sum.splits)

lemma books_return_book:
  "books (snd (return_book s i)) =
     (case isbn_ref (books s) i of
        None \<Rightarrow> books s
      | Some k \<Rightarrow> (books s)[k := after (books s ! k) (book_return_book (books s ! k))])"
  by (auto simp: return_book_def books_save_to_file after_def split: option.splits sum.splits)




subsection \<open>Reading records back\<close>

lemma Book_kw_to_dict: "Book_kw (to_dict b) = Inr (Some b)"
  by (simp add: to_dict_def field_names_def required_names_def kwarg_def)

lemma comprehension_to_dict: "comprehension (map to_dict bs) = Inr (Some bs)"
  by (induction bs) (simp_all add: Book_kw_to_dict)




text \<open>
  An empty object or an empty string at the top level is iterated as no items: the
  catalog is empty and, no exception being raised, nothing is logged.
\<close>

lemma load_empty_top_level:
  "storage s = Some (Parsed (JObject [])) \<or> storage s = Some (Parsed (JString [])) \<Longrightarrow>
   load_from_file s = Some (s\<lparr>books := []\<rparr>)"
  by (auto simp: load_from_file_def)

text \<open>Creating the inventory where no file exists writes the empty array and starts empty.\<close>

lemma LibraryInventory_fresh:
  "LibraryInventory None None lg =
     Some \<lparr>books = [], storage = Some (Parsed (JArray [])), write_fault = None, logged = lg\<rparr>"
  by (simp add: LibraryInventory_def ensure_storage_def save_to_file_def load_from_file_def)

subsection \<open>Lower case and containment\<close>








section \<open>Book transitions\<close>

text \<open>
  Claim C6, as the code has it. Issuing an available book sets the status to \<open>issued\<close>,
  \<open>issued_to\<close> to the user name as given (so it is non-empty exactly when the name is)
  and \<open>issued_on\<close> to the current time in ISO format, 19 characters long; the other
  fields stay. Returning an issued book sets the status to \<open>available\<close> and empties
  \<open>issued_to\<close> and \<open>issued_on\<close>.
\<close>

theorem issue_return_effect:
  "(is_available b \<longrightarrow>
      (\<exists>b'. issue b user_name now = Inr b' \<and> status b' = ''issued'' \<and>
            issued_to b' = user_name \<and> issued_on b' = isoformat now \<and>
            length (issued_on b') = 19 \<and>
            title b' = title b \<and> author b' = author b \<and> isbn b' = isbn b)) \<and>
   (status b = ''issued'' \<longrightarrow>
      (\<exists>b'. book_return_book b = Inr b' \<and> status b' = ''available'' \<and>
            issued_to b' = [] \<and> issued_on b' = [] \<and>
            title b' = title b \<and> author b' = author b \<and> isbn b' = isbn b))"
  by (simp add: is_available_def issue_def book_return_book_def isoformat_length)

theorem issue_return_effect_witness:
  "is_available dune \<and>
   (\<exists>b'. issue dune ''Alice'' noon = Inr b' \<and> status b' = ''issued'' \<and>
         issued_to b' = ''Alice'' \<and> issued_on b' = ''2024-03-05T12:00:00'' \<and>
         length (issued_on b') = 19 \<and>
         title b' = ''Dune'' \<and> author b' = ''Herbert'' \<and> isbn b' = ''111'') \<and>
   status dune_issued = ''issued'' \<and>
   (\<exists>b'. book_return_book dune_issued = Inr b' \<and> status b' = ''available'' \<and>
         issued_to b' = [] \<and> issued_on b' = [] \<and>
         title b' = ''Dune'' \<and> author b' = ''Herbert'' \<and> isbn b' = ''111'')"
proof -
  have a: "is_available dune" and t: "title dune = ''Dune''" "author dune = ''Herbert''"
    "isbn dune = ''111''"
    by (simp_all add: is_available_def dune_def Book_def)
  have i: "status dune_issued = ''issued''" and ti: "title dune_issued = ''Dune''"
    "author dune_issued = ''Herbert''" "isbn dune_issued = ''111''"
    by (simp_all add: dune_issued_def dune_def Book_def)
  from a i issue_return_effect [of dune "''Alice''" noon]
    issue_return_effect [of dune_issued "[]" noon]
  show ?thesis
    unfolding isoformat_noon t ti by blast
qed

text \<open>
  The claim as worded asks for a non-empty \<open>issued_to\<close> after every issue. The menu
  passes the stripped input on unchecked, so the empty name reaches \<open>Book.issue\<close>, which
  stores it.
\<close>

theorem issue_empty_user_counterexample:
  "is_available dune \<and>
   issue dune [] noon =
     Inr \<lparr>title = ''Dune'', author = ''Herbert'', isbn = ''111'', status = ''issued'',
          issued_to = [], issued_on = ''2024-03-05T12:00:00''\<rparr>"
  by (simp add: is_available_def issue_def dune_def Book_def isoformat_noon)

text \<open>
  Claim C8. Whatever the book, after one call of \<open>return_book\<close> a second call raises
  \<open>Book is already available.\<close> and leaves the book as the first call left it, with
  status \<open>available\<close>. Where the first call took effect (the book was not available),
  or the book satisfied the record invariant to begin with, \<open>issued_to\<close> and
  \<open>issued_on\<close> are empty.
\<close>

theorem return_twice:
  "book_return_book (after b (book_return_book b)) =
     Inl (PlainException ''Book is already available.'') \<and>
   after (after b (book_return_book b)) (book_return_book (after b (book_return_book b))) =
     after b (book_return_book b) \<and>
   status (after b (book_return_book b)) = ''available'' \<and>
   (\<not> is_available b \<or> book_inv b \<longrightarrow>
      issued_to (after b (book_return_book b)) = [] \<and>
      issued_on (after b (book_return_book b)) = [])"
  by (auto simp: book_return_book_def after_def is_available_def book_inv_def)

theorem return_twice_witness:
  "\<not> is_available dune_issued \<and>
   after dune_issued (book_return_book dune_issued) = dune \<and>
   book_return_book dune = Inl (PlainException ''Book is already available.'') \<and>
   after dune (book_return_book dune) = dune \<and>
   status dune = ''available'' \<and> issued_to dune = [] \<and> issued_on dune = []"
proof -
  have n: "\<not> is_available dune_issued"
    by (simp add: is_available_def dune_issued_def)
  have r: "after dune_issued (book_return_book dune_issued) = dune"
    by (simp add: after_def book_return_book_def is_available_def dune_issued_def dune_def Book_def)
  from n return_twice [of dune_issued] show ?thesis
    unfolding r by (simp add: after_def)
qed

section \<open>Catalog operations\<close>

text \<open>
  Claim C3. Adding a book whose ISBN some book of the catalog already has raises
  \<open>ValueError\<close> (the duplicate key error) and leaves the whole state as it was: the
  list, the file and the log. In particular, adding \<open>b1\<close> and then \<open>b2\<close> with the same
  ISBN to an empty catalog succeeds for \<open>b1\<close>, fails for \<open>b2\<close> and leaves exactly \<open>b1\<close>.
\<close>

theorem add_book_duplicate:
  "(isbn b \<in> isbn ` set (books s) \<longrightarrow>
      add_book s b = (Inl (ValueError ''ISBN already exists in catalog.''), s)) \<and>
   (books s = [] \<and> isbn b2 = isbn b1 \<longrightarrow>
      fst (add_book s b1) = Inr () \<and>
      add_book (snd (add_book s b1)) b2 =
        (Inl (ValueError ''ISBN already exists in catalog.''), snd (add_book s b1)) \<and>
      books (snd (add_book (snd (add_book s b1)) b2)) = [b1])"
  by (auto simp: add_book_def list_ex_isbn logger_def save_to_file_def split: option.splits)

theorem add_book_duplicate_witness:
  "isbn messiah \<in> isbn ` set (books shelf) \<and>
   add_book shelf messiah = (Inl (ValueError ''ISBN already exists in catalog.''), shelf) \<and>
   books vacant = [] \<and> isbn messiah = isbn dune \<and>
   fst (add_book vacant dune) = Inr () \<and>
   add_book (snd (add_book vacant dune)) messiah =
     (Inl (ValueError ''ISBN already exists in catalog.''), snd (add_book vacant dune)) \<and>
   books (snd (add_book (snd (add_book vacant dune)) messiah)) = [dune]"
proof -
  have h1: "isbn messiah \<in> isbn ` set (books shelf)"
    by (simp add: shelf_def messiah_def dune_def Book_def)
  have h2: "books vacant = [] \<and> isbn messiah = isbn dune"
    by (simp add: vacant_def messiah_def dune_def Book_def)
  from h1 h2 add_book_duplicate [of messiah shelf] add_book_duplicate [of _ vacant messiah dune]
  show ?thesis by blast
qed

text \<open>
  Claim C7. For an ISBN no book of the catalog has, \<open>issue_book\<close> raises
  \<open>FileNotFoundError\<close> and leaves the whole state as it was, so no book changes and the
  file is not rewritten. For an ISBN that is present, the book \<open>search_by_isbn\<close> finds is
  issued: when \<open>Book.issue\<close> raises its conflict, \<open>issue_book\<close> raises the same exception
  and the state is as it was; when it succeeds, the book is replaced in its place and
  the catalog is saved, so that a writable file then holds the new list.
\<close>

theorem issue_book_paths:
  "(i \<notin> isbn ` set (books s) \<longrightarrow>
      issue_book s i u now = (Inl (FileNotFoundError ''Book with that ISBN not found.''), s)) \<and>
   (\<forall>b. search_by_isbn s i = Some b \<longrightarrow>
      (\<not> is_available b \<longrightarrow>
         issue b u now = Inl (PlainException (''Book already issued to '' @ issued_to b @ ''.'')) \<and>
         issue_book s i u now =
           (Inl (PlainException (''Book already issued to '' @ issued_to b @ ''.'')), s)) \<and>
      (is_available b \<longrightarrow>
         (\<exists>k b'. isbn_ref (books s) i = Some k \<and> books s ! k = b \<and> issue b u now = Inr b' \<and>
            issue_book s i u now =
              (Inr (), save_to_file (s\<lparr>books := (books s)[k := b']\<rparr>)) \<and>
            (write_fault s = None \<longrightarrow>
               storage (snd (issue_book s i u now)) =
                 Some (Parsed (JArray (map to_dict (books (snd (issue_book s i u now))))))))))"
  by (auto simp: issue_book_def isbn_ref_None [symmetric] search_by_isbn_def search_in_ref
        issue_def save_to_file_def split: option.splits)

theorem issue_book_paths_witness:
  "''999'' \<notin> isbn ` set (books lent) \<and>
   issue_book lent ''999'' ''Bob'' noon =
     (Inl (FileNotFoundError ''Book with that ISBN not found.''), lent) \<and>
   search_by_isbn lent ''111'' = Some dune_issued \<and> \<not> is_available dune_issued \<and>
   issue_book lent ''111'' ''Bob'' noon =
     (Inl (PlainException ''Book already issued to Alice.''), lent) \<and>
   search_by_isbn lent ''222'' = Some foundation \<and> is_available foundation \<and>
   write_fault lent = None \<and>
   fst (issue_book lent ''222'' ''Bob'' noon) = Inr () \<and>
   storage (snd (issue_book lent ''222'' ''Bob'' noon)) =
     Some (Parsed (JArray (map to_dict (books (snd (issue_book lent ''222'' ''Bob'' noon))))))"
proof -
  have a: "''999'' \<notin> isbn ` set (books lent)"
    by (simp add: lent_def dune_issued_def dune_def foundation_def Book_def)
  have b: "search_by_isbn lent ''111'' = Some dune_issued" "\<not> is_available dune_issued"
    "issued_to dune_issued = ''Alice''"
    by (simp_all add: search_by_isbn_def lent_def dune_issued_def dune_def Book_def
          is_available_def)
  have c: "search_by_isbn lent ''222'' = Some foundation" "is_available foundation"
    "write_fault lent = None"
    by (simp_all add: search_by_isbn_def lent_def dune_issued_def dune_def foundation_def
          Book_def is_available_def)
  from a issue_book_paths [of "''999''" lent "''Bob''" noon]
  have 1: "issue_book lent ''999'' ''Bob'' noon =
     (Inl (FileNotFoundError ''Book with that ISBN not found.''), lent)"
    by blast
  from b issue_book_paths [of "''111''" lent "''Bob''" noon]
  have 2: "issue_book lent ''111'' ''Bob'' noon =
     (Inl (PlainException ''Book already issued to Alice.''), lent)"
    by simp
  from c issue_book_paths [of "''222''" lent "''Bob''" noon]
  have 3: "fst (issue_book lent ''222'' ''Bob'' noon) = Inr () \<and>
    storage (snd (issue_book lent ''222'' ''Bob'' noon)) =
     Some (Parsed (JArray (map to_dict (books (snd (issue_book lent ''222'' ''Bob'' noon))))))"
    by auto
  from a b c 1 2 3 show ?thesis by simp
qed






section \<open>Persistence and search\<close>





text \<open>
  Claim C10. \<open>load_from_file\<close> takes an array of records as it stands: whatever the
  list of books, with ISBNs repeated and any status, the file that holds their records
  loads as that very list. In any catalog \<open>search_by_isbn\<close> returns the first book with
  the ISBN, in the order of the list; \<open>issue_book\<close> and \<open>return_book\<close> change no book
  at any other position and keep the length of the list, so a later book with the same
  ISBN is never reached.
\<close>

theorem load_duplicates_first_match:
  "load_from_file (s\<lparr>storage := Some (Parsed (JArray (map to_dict bs)))\<rparr>) =
     Some (s\<lparr>storage := Some (Parsed (JArray (map to_dict bs))), books := bs\<rparr>) \<and>
   (\<forall>b. search_by_isbn s i = Some b \<longrightarrow>
      (\<exists>k<length (books s). isbn_ref (books s) i = Some k \<and> books s ! k = b \<and> isbn b = i \<and>
         (\<forall>j<k. isbn (books s ! j) \<noteq> i))) \<and>
   length (books (snd (issue_book s i u now))) = length (books s) \<and>
   length (books (snd (return_book s i))) = length (books s) \<and>
   (\<forall>j. isbn_ref (books s) i \<noteq> Some j \<longrightarrow>
      books (snd (issue_book s i u now)) ! j = books s ! j \<and>
      books (snd (return_book s i)) ! j = books s ! j)"
proof (intro conjI allI impI)
  show "load_from_file (s\<lparr>storage := Some (Parsed (JArray (map to_dict bs)))\<rparr>) =
     Some (s\<lparr>storage := Some (Parsed (JArray (map to_dict bs))), books := bs\<rparr>)"
    by (simp add: load_from_file_def comprehension_to_dict)
next
  fix b assume "search_by_isbn s i = Some b"
  then obtain k where k: "isbn_ref (books s) i = Some k" "books s ! k = b"
    by (auto simp: search_by_isbn_def search_in_ref)
  with isbn_ref_Some [OF k(1)]
  show "\<exists>k<length (books s). isbn_ref (books s) i = Some k \<and> books s ! k = b \<and> isbn b = i \<and>
         (\<forall>j<k. isbn (books s ! j) \<noteq> i)"
    by auto
next
  show "length (books (snd (issue_book s i u now))) = length (books s)"
    by (simp add: books_issue_book split: option.splits)
  show "length (books (snd (return_book s i))) = length (books s)"
    by (simp add: books_return_book split: option.splits)
next
  fix j assume "isbn_ref (books s) i \<noteq> Some j"
  then show "books (snd (issue_book s i u now)) ! j = books s ! j"
    by (auto simp: books_issue_book split: option.splits)
next
  fix j assume "isbn_ref (books s) i \<noteq> Some j"
  then show "books (snd (return_book s i)) ! j = books s ! j"
    by (auto simp: books_return_book split: option.splits)
qed

theorem load_duplicates_first_match_witness:
  "load_from_file (vacant\<lparr>storage := Some (Parsed (JArray (map to_dict [dune, messiah])))\<rparr>) =
     Some (vacant\<lparr>storage := Some (Parsed (JArray (map to_dict [dune, messiah]))),
             books := [dune, messiah]\<rparr>) \<and>
   isbn dune = ''111'' \<and> isbn messiah = ''111'' \<and>
   search_by_isbn twins ''111'' = Some dune \<and>
   isbn_ref (books twins) ''111'' = Some 0 \<and>
   books (snd (issue_book twins ''111'' ''Alice'' noon)) ! 1 = messiah \<and>
   books (snd (return_book twins ''111'')) ! 1 = messiah \<and>
   length (books (snd (issue_book twins ''111'' ''Alice'' noon))) = 2"
proof -
  have e: "isbn dune = ''111''" "isbn messiah = ''111''"
    "search_by_isbn twins ''111'' = Some dune" "isbn_ref (books twins) ''111'' = Some 0"
    "books twins ! 1 = messiah" "length (books twins) = 2"
    by (simp_all add: twins_def dune_def messiah_def Book_def search_by_isbn_def)
  then have n: "isbn_ref (books twins) ''111'' \<noteq> Some 1"
    by simp
  from load_duplicates_first_match [where s = vacant and bs = "[dune, messiah]"]
    load_duplicates_first_match [where s = twins and i = "''111''" and u = "''Alice''" and now = noon]
    n
  have "load_from_file (vacant\<lparr>storage := Some (Parsed (JArray (map to_dict [dune, messiah])))\<rparr>) =
     Some (vacant\<lparr>storage := Some (Parsed (JArray (map to_dict [dune, messiah]))),
             books := [dune, messiah]\<rparr>) \<and>
    books (snd (issue_book twins ''111'' ''Alice'' noon)) ! 1 = books twins ! 1 \<and>
    books (snd (return_book twins ''111'')) ! 1 = books twins ! 1 \<and>
    length (books (snd (issue_book twins ''111'' ''Alice'' noon))) = length (books twins)"
    by blast
  with e show ?thesis by simp
qed

section \<open>The record invariant\<close>




section \<open>The scenario of the specification\<close>

text \<open>
  Starting from an empty catalog: add Dune and Foundation, issue 111 to Alice, look the
  book up, return it, look it up again.
\<close>

lemma scenario:
  "snd (add_book (snd (add_book vacant dune)) foundation) = shelf\<lparr>logged :=
     [(INFO, ''Book added: Dune''), (INFO, ''Book added: Foundation'')]\<rparr> \<and>
   search_by_isbn (snd (issue_book shelf ''111'' ''Alice'' noon)) ''111'' = Some dune_issued \<and>
   snd (issue_book shelf ''111'' ''Alice'' noon) = lent \<and>
   search_by_isbn (snd (return_book lent ''111'')) ''111'' = Some dune \<and>
   snd (return_book lent ''111'') = shelf"
  by (simp add: add_book_def issue_book_def return_book_def search_by_isbn_def issue_def
        book_return_book_def is_available_def save_to_file_def logger_def vacant_def shelf_def
        lent_def dune_issued_def dune_def foundation_def Book_def isoformat_noon)

end
